theory Spec2Isabelle
  imports Main
begin

section \<open>Strings\<close>

text \<open>
  Python strings are modelled as \<^typ>\<open>string\<close>, one \<^typ>\<open>char\<close> per code point
  below 256. \<open>endswith\<close> is \<^verbatim>\<open>str.endswith\<close> with a single suffix argument,
  \<open>startswith\<close> its mirror image, and \<open>lower\<close> is \<^verbatim>\<open>str.lower\<close> on that range
  (the letters A-Z and the Latin-1 capitals move up by 32).
\<close>

definition endswith :: "string \<Rightarrow> string \<Rightarrow> bool" where
  "endswith s suf \<longleftrightarrow>
     length suf \<le> length s \<and> drop (length s - length suf) s = suf"

definition startswith :: "string \<Rightarrow> string \<Rightarrow> bool" where
  "startswith s pre \<longleftrightarrow> take (length pre) s = pre"

definition lower_char :: "char \<Rightarrow> char" where
  "lower_char c =
     (let n = (of_char c :: nat)
      in if (65 \<le> n \<and> n \<le> 90) \<or> (192 \<le> n \<and> n \<le> 222 \<and> n \<noteq> 215)
         then char_of (n + 32) else c)"

definition lower :: "string \<Rightarrow> string" where
  "lower s = map lower_char s"

section \<open>The request handler\<close>

subsection \<open>Content type\<close>

text \<open>
  \<^verbatim>\<open>COOPCOEPHandler.guess_type\<close> (serve.py, lines 30-36). The call
  \<^verbatim>\<open>super().guess_type(path)\<close> goes to the library's extension table, which is not
  part of the repository: it is the parameter \<open>super_guess_type\<close>.
\<close>

definition guess_type :: "(string \<Rightarrow> string) \<Rightarrow> string \<Rightarrow> string" where
  "guess_type super_guess_type path =
     (if endswith path ''.wasm'' then ''application/wasm''
      else if endswith path ''.mjs'' then ''application/javascript''
      else super_guess_type path)"

subsection \<open>Response headers\<close>

text \<open>
  The handler inherits its header buffer from the library class
  \<^verbatim>\<open>BaseHTTPRequestHandler\<close> (http/server.py of CPython 3.11). The record holds the
  attributes that \<^verbatim>\<open>send_header\<close>, \<^verbatim>\<open>end_headers\<close> and \<^verbatim>\<open>flush_headers\<close> read
  and write: \<^verbatim>\<open>request_version\<close>, \<^verbatim>\<open>_headers_buffer\<close> (the status line and the
  header lines queued so far, each encoded; an absent attribute is the empty list,
  since \<open>send_header\<close> creates it), the bytes written to \<^verbatim>\<open>wfile\<close> and
  \<^verbatim>\<open>close_connection\<close>.
\<close>

record handler =
  request_version :: string
  headers_buffer :: "string list"
  wfile :: string
  close_connection :: bool

definition CRLF :: string where
  "CRLF = [CHR 0x0D, CHR 0x0A]"

text \<open>
  The library's \<^verbatim>\<open>send_header\<close>: the line \<^verbatim>\<open>"%s: %s\r\n"\<close> is queued unless the
  request came as HTTP/0.9, and a \<^verbatim>\<open>Connection\<close> header sets \<open>close_connection\<close>.
\<close>

definition header_line :: "string \<Rightarrow> string \<Rightarrow> string" where
  "header_line keyword val = keyword @ '': '' @ val @ CRLF"

definition send_header :: "string \<Rightarrow> string \<Rightarrow> handler \<Rightarrow> handler" where
  "send_header keyword val h =
     (let h1 = (if request_version h \<noteq> ''HTTP/0.9''
                then h\<lparr>headers_buffer := headers_buffer h @ [header_line keyword val]\<rparr>
                else h)
      in if lower keyword = ''connection''
         then (if lower val = ''close'' then h1\<lparr>close_connection := True\<rparr>
               else if lower val = ''keep-alive'' then h1\<lparr>close_connection := False\<rparr>
               else h1)
         else h1)"

definition flush_headers :: "handler \<Rightarrow> handler" where
  "flush_headers h =
     h\<lparr>wfile := wfile h @ concat (headers_buffer h), headers_buffer := []\<rparr>"

text \<open>The library's \<^verbatim>\<open>end_headers\<close>, reached through \<^verbatim>\<open>super().end_headers()\<close>.\<close>

definition super_end_headers :: "handler \<Rightarrow> handler" where
  "super_end_headers h =
     (if request_version h \<noteq> ''HTTP/0.9''
      then flush_headers (h\<lparr>headers_buffer := headers_buffer h @ [CRLF]\<rparr>)
      else h)"

text \<open>\<^verbatim>\<open>COOPCOEPHandler.end_headers\<close> (serve.py, lines 23-28).\<close>

definition end_headers :: "handler \<Rightarrow> handler" where
  "end_headers h =
     super_end_headers
       (send_header ''Cross-Origin-Embedder-Policy'' ''require-corp''
         (send_header ''Cross-Origin-Opener-Policy'' ''same-origin'' h))"

text \<open>
  Reading a header block: a line carries the header \<open>name\<close> when it starts with the
  name and a colon, in any mix of upper and lower case (header names are not
  case-sensitive), and \<open>header_count\<close> counts such lines.
\<close>

definition header_named :: "string \<Rightarrow> string \<Rightarrow> bool" where
  "header_named name line \<longleftrightarrow> startswith (lower line) (lower name @ '':'')"

definition header_count :: "string \<Rightarrow> string list \<Rightarrow> nat" where
  "header_count name block = length (filter (header_named name) block)"

section \<open>The program\<close>

subsection \<open>Built-in conversions\<close>

text \<open>
  \<open>py_int\<close> is \<^verbatim>\<open>int(s)\<close> for a string argument, with \<open>None\<close> for
  \<^verbatim>\<open>ValueError\<close>: surrounding whitespace is stripped, one sign is allowed, and the
  rest is decimal digits in groups separated by single underscores. CPython 3.11
  refuses a literal of more than 4300 digits
  (\<^verbatim>\<open>sys.int_info.default_max_str_digits\<close>).
  \<open>str_int\<close> is \<^verbatim>\<open>str(n)\<close> for an integer, as the f-string of the banner uses it.
\<close>

definition is_space :: "char \<Rightarrow> bool" where
  "is_space c \<longleftrightarrow>
     (let n = (of_char c :: nat)
      in (9 \<le> n \<and> n \<le> 13) \<or> n = 32 \<or> n = 133 \<or> n = 160)"

definition strip :: "string \<Rightarrow> string" where
  "strip s = rev (dropWhile is_space (rev (dropWhile is_space s)))"

definition is_digit :: "char \<Rightarrow> bool" where
  "is_digit c \<longleftrightarrow> (let n = (of_char c :: nat) in 48 \<le> n \<and> n \<le> 57)"

definition digit_val :: "char \<Rightarrow> nat" where
  "digit_val c = of_char c - 48"

fun more_digits :: "nat \<Rightarrow> string \<Rightarrow> nat option" where
  "more_digits acc [] = Some acc"
| "more_digits acc (c # cs) =
     (if is_digit c then more_digits (10 * acc + digit_val c) cs
      else if c = CHR ''_''
      then (case cs of
              [] \<Rightarrow> None
            | d # ds \<Rightarrow> if is_digit d then more_digits (10 * acc + digit_val d) ds else None)
      else None)"

definition max_str_digits :: nat where
  "max_str_digits = 4300"

definition py_nat :: "string \<Rightarrow> nat option" where
  "py_nat s =
     (case s of
        [] \<Rightarrow> None
      | c # cs \<Rightarrow>
          if is_digit c \<and> length (filter is_digit s) \<le> max_str_digits
          then more_digits (digit_val c) cs else None)"

definition py_int :: "string \<Rightarrow> int option" where
  "py_int s =
     (case strip s of
        [] \<Rightarrow> None
      | c # cs \<Rightarrow>
          if c = CHR ''-'' then map_option (\<lambda>n. - int n) (py_nat cs)
          else if c = CHR ''+'' then map_option int (py_nat cs)
          else map_option int (py_nat (c # cs)))"

fun str_nat :: "nat \<Rightarrow> string" where
  "str_nat n =
     (if n < 10 then [''0123456789'' ! n]
      else str_nat (n div 10) @ [''0123456789'' ! (n mod 10)])"

declare str_nat.simps [simp del]

definition str_int :: "int \<Rightarrow> string" where
  "str_int i = (if i < 0 then CHR ''-'' # str_nat (nat (- i)) else str_nat (nat i))"

subsection \<open>The server object and the world around it\<close>

text \<open>
  The exceptions the script can meet before and while it serves: \<^verbatim>\<open>ValueError\<close> from
  \<open>int\<close>, \<^verbatim>\<open>OSError\<close> (address in use, permission denied, unknown host) and
  \<^verbatim>\<open>OverflowError\<close> (port outside 0-65535) from binding.
\<close>

datatype exn = ValueError | OSError | OverflowError

text \<open>
  Of the library's \<^verbatim>\<open>HTTPServer\<close> (socketserver.py) the record keeps
  \<^verbatim>\<open>server_address\<close>, whether its listening socket is open, and the two fields that
  \<^verbatim>\<open>serve_forever\<close> and \<^verbatim>\<open>shutdown\<close> share: the flag \<^verbatim>\<open>__shutdown_request\<close> and the
  event \<^verbatim>\<open>__is_shut_down\<close>.
\<close>

record http_server =
  server_address :: "string \<times> int"
  socket_open :: bool
  shutdown_request :: bool
  is_shut_down :: bool

text \<open>
  What the program cannot decide is an input: \<open>bind_error\<close> is the exception that
  binding an address raises (\<open>None\<close> when the socket is bound), \<open>sockname\<close> is what
  \<^verbatim>\<open>getsockname()\<close> reports for a socket bound with an address (the kernel chooses the
  port when 0 was asked for, and a host name has been resolved), and \<open>serving_ends\<close>
  tells how the serving loop is left. No other thread calls \<^verbatim>\<open>shutdown\<close>, so the loop
  never returns normally: it runs for ever (\<open>None\<close>), or it is left by
  \<^verbatim>\<open>KeyboardInterrupt\<close> or by another exception that escapes.
\<close>

datatype raised = KeyboardInterrupt | Error exn

record env =
  bind_error :: "string \<Rightarrow> int \<Rightarrow> exn option"
  sockname :: "string \<Rightarrow> int \<Rightarrow> string \<times> int"
  serving_ends :: "raised option"

text \<open>What the process asks of the operating system about its listening socket.\<close>

datatype os_call = Bind "string \<times> int" | Listen | Close

text \<open>
  The constructor \<^verbatim>\<open>HTTPServer((bind, port), COOPCOEPHandler)\<close>, that is
  \<^verbatim>\<open>TCPServer.__init__\<close> with \<^verbatim>\<open>server_bind\<close> and \<^verbatim>\<open>server_activate\<close>: it binds the
  socket with the address it was given, stores what \<^verbatim>\<open>getsockname()\<close> reports as
  \<^verbatim>\<open>server_address\<close>, and listens; when binding raises, it closes the socket and
  raises again. The result is paired with the calls it made.
\<close>

definition HTTPServer :: "env \<Rightarrow> string \<times> int \<Rightarrow> os_call list \<times> (exn + http_server)" where
  "HTTPServer e addr =
     (case bind_error e (fst addr) (snd addr) of
        Some x \<Rightarrow> ([Bind addr, Close], Inl x)
      | None \<Rightarrow>
          ([Bind addr, Listen],
           Inr \<lparr>server_address = sockname e (fst addr) (snd addr), socket_open = True,
                shutdown_request = False, is_shut_down = False\<rparr>))"

text \<open>
  \<^verbatim>\<open>serve_forever\<close> clears the event, serves, and in its \<^verbatim>\<open>finally\<close> clause resets the
  flag and sets the event. The result is \<open>None\<close> when the loop never ends, otherwise
  the exception that left it and the server object.
\<close>

definition serve_forever :: "env \<Rightarrow> http_server \<Rightarrow> (raised \<times> http_server) option" where
  "serve_forever e srv =
     (case serving_ends e of
        None \<Rightarrow> None
      | Some x \<Rightarrow> Some (x, srv\<lparr>shutdown_request := False, is_shut_down := True\<rparr>))"

text \<open>
  \<^verbatim>\<open>shutdown\<close> sets the flag and waits for the event: it returns only when the event
  is set (\<open>None\<close>: it waits for ever). It leaves the socket as it is.
\<close>

definition shutdown :: "http_server \<Rightarrow> http_server option" where
  "shutdown srv =
     (if is_shut_down srv then Some (srv\<lparr>shutdown_request := True\<rparr>) else None)"

subsection \<open>The script\<close>

text \<open>
  A run of the process is described by what it printed, the uncaught exception the
  interpreter reported (a traceback on the error stream), the address handed to the
  constructor, the calls made on the listening socket, the server object, whether the
  serving loop was entered, and the exit status (\<open>None\<close> when the process does not
  end).
\<close>

record run =
  stdout :: string
  traceback :: "exn option"
  constructed_with :: "(string \<times> int) option"
  os_calls :: "os_call list"
  server :: "http_server option"
  served :: bool
  exit_code :: "int option"

definition start :: run where
  "start = \<lparr>stdout = [], traceback = None, constructed_with = None, os_calls = [],
            server = None, served = False, exit_code = None\<rparr>"

text \<open>
  The end of the process: the exit status is set, and a listening socket that is still
  open is closed, as every descriptor of a process is when it ends. An exception that
  nothing catches is reported and ends the process with status 1; a script that runs to
  its last statement ends it with status 0.
\<close>

definition process_ends :: "int \<Rightarrow> run \<Rightarrow> run" where
  "process_ends status r =
     (case server r of
        None \<Rightarrow> r\<lparr>exit_code := Some status\<rparr>
      | Some srv \<Rightarrow>
          if socket_open srv
          then r\<lparr>os_calls := os_calls r @ [Close],
                 server := Some (srv\<lparr>socket_open := False\<rparr>),
                 exit_code := Some status\<rparr>
          else r\<lparr>exit_code := Some status\<rparr>)"

definition uncaught :: "exn \<Rightarrow> run \<Rightarrow> run" where
  "uncaught x r = process_ends 1 (r\<lparr>traceback := Some x\<rparr>)"

definition print :: "string \<Rightarrow> string \<Rightarrow> string" where
  "print s out = out @ s @ [CHR 0x0A]"

text \<open>Lines 40 and 41: the port and the bind address from \<^verbatim>\<open>sys.argv\<close>.\<close>

definition parse_port :: "string list \<Rightarrow> exn + int" where
  "parse_port argv =
     (if length argv > 1
      then (case py_int (argv ! 1) of None \<Rightarrow> Inl ValueError | Some n \<Rightarrow> Inr n)
      else Inr 8080)"

definition parse_bind :: "string list \<Rightarrow> string" where
  "parse_bind argv = (if length argv > 2 then argv ! 2 else ''127.0.0.1'')"

definition banner :: "string \<Rightarrow> int \<Rightarrow> string" where
  "banner bind port =
     ''Serving on http://'' @ bind @ '':'' @ str_int port @ '' with COOP/COEP headers''"

text \<open>Lines 39-49, the body of the \<^verbatim>\<open>__main__\<close> block, run as a process.\<close>

definition main :: "env \<Rightarrow> string list \<Rightarrow> run" where
  "main e argv =
     (case parse_port argv of
        Inl x \<Rightarrow> uncaught x start
      | Inr port \<Rightarrow>
          let bind = parse_bind argv;
              (calls, built) = HTTPServer e (bind, port);
              r0 = start\<lparr>constructed_with := Some (bind, port), os_calls := calls\<rparr>
          in (case built of
                Inl x \<Rightarrow> uncaught x r0
              | Inr srv \<Rightarrow>
                  let r1 = r0\<lparr>server := Some srv, stdout := print (banner bind port) []\<rparr>
                  in (case serve_forever e srv of
                        None \<Rightarrow> r1\<lparr>served := True\<rparr>
                      | Some (Error x, srv1) \<Rightarrow>
                          uncaught x (r1\<lparr>served := True, server := Some srv1\<rparr>)
                      | Some (KeyboardInterrupt, srv1) \<Rightarrow>
                          let r2 = r1\<lparr>served := True, server := Some srv1,
                                      stdout := print (CHR 0x0A # ''Shutting down.'')
                                                  (stdout r1)\<rparr>
                          in (case shutdown srv1 of
                                None \<Rightarrow> r2
                              | Some srv2 \<Rightarrow> process_ends 0 (r2\<lparr>server := Some srv2\<rparr>)))))"

subsection \<open>Sample inputs\<close>

text \<open>
  Three worlds for the script: the port is free and nothing ever stops the server; the
  port is free and the operator interrupts the server; the address is already in use.
  In each the kernel reports the address a socket was bound with, except that it
  replaces port 0 by a port of its choice.
  Two handler states at the moment \<^verbatim>\<open>end_headers\<close> is called: the library's 404 reply
  to an HTTP/1.1 request, and the reply to a request that came as HTTP/0.9.
\<close>

definition kernel_name :: "string \<Rightarrow> int \<Rightarrow> string \<times> int" where
  "kernel_name host port = (host, if port = 0 then 49152 else port)"

definition undisturbed :: env where
  "undisturbed =
     \<lparr>bind_error = (\<lambda>host port. None), sockname = kernel_name, serving_ends = None\<rparr>"

definition interrupted :: env where
  "interrupted =
     \<lparr>bind_error = (\<lambda>host port. None), sockname = kernel_name,
      serving_ends = Some KeyboardInterrupt\<rparr>"

definition address_in_use :: env where
  "address_in_use =
     \<lparr>bind_error = (\<lambda>host port. Some OSError), sockname = kernel_name,
      serving_ends = None\<rparr>"

definition not_found_reply :: handler where
  "not_found_reply =
     \<lparr>request_version = ''HTTP/1.1'',
      headers_buffer = [''HTTP/1.0 404 File not found'' @ CRLF,
                        header_line ''Server'' ''SimpleHTTP/0.6 Python/3.11.10'',
                        header_line ''Connection'' ''close'',
                        header_line ''Content-Type'' ''text/html;charset=utf-8'',
                        header_line ''Content-Length'' ''335''],
      wfile = [],
      close_connection = True\<rparr>"

definition http09_reply :: handler where
  "http09_reply =
     \<lparr>request_version = ''HTTP/0.9'', headers_buffer = [], wfile = [],
      close_connection = True\<rparr>"

section \<open>Facts about strings\<close>

lemma endswith_iff: "endswith s suf \<longleftrightarrow> (\<exists>stem. s = stem @ suf)"
proof
  assume "endswith s suf"
  then have "s = take (length s - length suf) s @ suf"
    by (metis append_take_drop_id endswith_def)
  then show "\<exists>stem. s = stem @ suf" ..
next
  assume "\<exists>stem. s = stem @ suf"
  then show "endswith s suf"
    by (auto simp: endswith_def)
qed

lemma length_lower: "length (lower s) = length s"
  by (simp add: lower_def)

lemma not_endswith_other:
  assumes "endswith path suf" and "length suf = length ext" and "suf \<noteq> ext"
  shows "\<not> endswith path ext"
  using assms by (auto simp: endswith_def)

lemma endswith_last:
  assumes "endswith path suf" and "suf \<noteq> []"
  shows "last path = last suf"
  using assms by (auto simp: endswith_iff)

lemma lower_char_m: "lower_char CHR ''m'' = CHR ''m''"
  by code_simp

lemma lower_char_s: "lower_char CHR ''s'' = CHR ''s''"
  by code_simp

lemma lower_WASM: "lower ''.WASM'' = ''.wasm''"
  by code_simp

section \<open>Content type\<close>

text \<open>
  Claim C2. For every path, \<open>guess_type\<close> answers \<open>application/wasm\<close> when the path
  ends with \<open>.wasm\<close>, otherwise \<open>application/javascript\<close> when it ends with \<open>.mjs\<close>,
  and otherwise whatever the library's lookup answers for that path. The path is the
  only input besides that lookup: no file is opened or tested for existence.
\<close>

theorem guess_type_resolution:
  "guess_type super_guess_type path =
     (if (\<exists>stem. path = stem @ ''.wasm'') then ''application/wasm''
      else if (\<exists>stem. path = stem @ ''.mjs'') then ''application/javascript''
      else super_guess_type path)"
  by (simp add: guess_type_def endswith_iff)

text \<open>The three branches on concrete paths.\<close>

theorem guess_type_resolution_witness:
  "guess_type (\<lambda>p. ''text/plain'') ''pkg/module.wasm'' = ''application/wasm'' \<and>
   guess_type (\<lambda>p. ''text/plain'') ''pkg/worker.mjs'' = ''application/javascript'' \<and>
   guess_type (\<lambda>p. ''text/plain'') ''notes.txt'' = ''text/plain''"
  by (simp add: guess_type_resolution)

text \<open>
  Claim C8. For a path that ends with \<open>.html\<close> neither override applies: the content
  type is the one the library's lookup gives for that path, so it is \<open>text/html\<close>
  exactly when the library's table says so.
\<close>

theorem guess_type_html:
  assumes "endswith path ''.html''"
  shows "guess_type super_guess_type path = super_guess_type path"
proof -
  from assms have l: "last path = CHR ''l''"
    by (auto simp: endswith_iff)
  have "\<not> endswith path ''.wasm''"
    using l by (auto simp: endswith_iff)
  moreover have "\<not> endswith path ''.mjs''"
    using l by (auto simp: endswith_iff)
  ultimately show ?thesis
    by (simp add: guess_type_def)
qed

text \<open>With a lookup that knows \<open>.html\<close>, the page is served as \<open>text/html\<close>.\<close>

theorem guess_type_html_witness:
  "endswith ''docs/index.html'' ''.html'' \<and>
   guess_type (\<lambda>p. if endswith p ''.html'' then ''text/html''
                    else ''application/octet-stream'') ''docs/index.html'' = ''text/html''"
proof -
  have e: "endswith ''docs/index.html'' ''.html''"
    by (simp add: endswith_def)
  from guess_type_html [OF e] e show ?thesis
    by simp
qed

text \<open>
  Claim C9. The suffix test is case-sensitive: when a path ends with a suffix that is
  \<open>.wasm\<close> or \<open>.mjs\<close> only up to the case of its letters, neither override is taken
  and the result is the library's lookup for that path.
\<close>

theorem guess_type_case_sensitive:
  assumes ends: "endswith path suf"
    and variant: "lower suf = ''.wasm'' \<or> lower suf = ''.mjs''"
    and inexact: "suf \<noteq> ''.wasm''" "suf \<noteq> ''.mjs''"
  shows "guess_type super_guess_type path = super_guess_type path"
proof -
  from variant have ne: "suf \<noteq> []"
    by (auto simp: lower_def)
  have lastl: "lower_char (last suf) = last (lower suf)"
    using ne by (simp add: lower_def last_map)
  have lp: "last path = last suf"
    using ends ne by (rule endswith_last)
  have "\<not> endswith path ''.wasm''"
  proof (cases "lower suf = ''.wasm''")
    case True
    then have "length suf = length ''.wasm''"
      by (metis length_lower)
    then show ?thesis
      using not_endswith_other [OF ends _ inexact(1)] by blast
  next
    case False
    with variant have m: "lower suf = ''.mjs''" by simp
    show ?thesis
    proof
      assume "endswith path ''.wasm''"
      then have "last path = CHR ''m''"
        by (auto simp: endswith_iff)
      with lp have "lower_char (last suf) = CHR ''m''"
        by (metis lower_char_m)
      moreover have "last (lower suf) = CHR ''s''"
        using m by simp
      ultimately show False
        using lastl by simp
    qed
  qed
  moreover have "\<not> endswith path ''.mjs''"
  proof (cases "lower suf = ''.mjs''")
    case True
    then have "length suf = length ''.mjs''"
      by (metis length_lower)
    then show ?thesis
      using not_endswith_other [OF ends _ inexact(2)] by blast
  next
    case False
    with variant have m: "lower suf = ''.wasm''" by simp
    show ?thesis
    proof
      assume "endswith path ''.mjs''"
      then have "last path = CHR ''s''"
        by (auto simp: endswith_iff)
      with lp have "lower_char (last suf) = CHR ''s''"
        by (metis lower_char_s)
      moreover have "last (lower suf) = CHR ''m''"
        using m by simp
      ultimately show False
        using lastl by simp
    qed
  qed
  ultimately show ?thesis
    by (simp add: guess_type_def)
qed

text \<open>An upper-case \<open>.WASM\<close> file falls through to the library's lookup.\<close>

theorem guess_type_case_sensitive_witness:
  "endswith ''pkg/MODULE.WASM'' ''.WASM'' \<and> lower ''.WASM'' = ''.wasm'' \<and>
   guess_type (\<lambda>p. ''application/octet-stream'') ''pkg/MODULE.WASM''
     = ''application/octet-stream''"
proof -
  have e: "endswith ''pkg/MODULE.WASM'' ''.WASM''"
    by (simp add: endswith_def)
  have v: "lower ''.WASM'' = ''.wasm'' \<or> lower ''.WASM'' = ''.mjs''"
    by (simp add: lower_WASM)
  have "guess_type (\<lambda>p. ''application/octet-stream'') ''pkg/MODULE.WASM''
      = ''application/octet-stream''"
    using guess_type_case_sensitive [OF e v] by simp
  with e show ?thesis
    by (simp add: lower_WASM)
qed

section \<open>Isolation headers\<close>

lemma not_connection:
  "lower ''Cross-Origin-Opener-Policy'' \<noteq> ''connection''"
  "lower ''Cross-Origin-Embedder-Policy'' \<noteq> ''connection''"
  by (simp_all add: lower_def)

lemma send_header_queues:
  assumes "lower keyword \<noteq> ''connection''" and "request_version h \<noteq> ''HTTP/0.9''"
  shows "send_header keyword val h =
           h\<lparr>headers_buffer := headers_buffer h @ [header_line keyword val]\<rparr>"
  using assms by (simp add: send_header_def)

lemma send_header_http09:
  assumes "lower keyword \<noteq> ''connection''" and "request_version h = ''HTTP/0.9''"
  shows "send_header keyword val h = h"
  using assms by (simp add: send_header_def)

lemma end_headers_flushes:
  assumes "request_version h \<noteq> ''HTTP/0.9''"
  shows "end_headers h =
           h\<lparr>wfile := wfile h @ concat (headers_buffer h @
                   [header_line ''Cross-Origin-Opener-Policy'' ''same-origin'',
                    header_line ''Cross-Origin-Embedder-Policy'' ''require-corp'', CRLF]),
              headers_buffer := []\<rparr>"
  using assms
  by (simp add: end_headers_def send_header_queues not_connection super_end_headers_def
      flush_headers_def)

lemma end_headers_http09:
  assumes "request_version h = ''HTTP/0.9''"
  shows "end_headers h = h"
  using assms
  by (simp add: end_headers_def send_header_http09 not_connection super_end_headers_def)

lemma header_count_append:
  "header_count name (xs @ ys) = header_count name xs + header_count name ys"
  by (simp add: header_count_def)

lemma header_count_tail:
  "header_count ''Cross-Origin-Opener-Policy''
     [header_line ''Cross-Origin-Opener-Policy'' ''same-origin'',
      header_line ''Cross-Origin-Embedder-Policy'' ''require-corp'', CRLF] = 1"
  "header_count ''Cross-Origin-Embedder-Policy''
     [header_line ''Cross-Origin-Opener-Policy'' ''same-origin'',
      header_line ''Cross-Origin-Embedder-Policy'' ''require-corp'', CRLF] = 1"
  by code_simp+

lemma header_count_blank:
  assumes "concat block = []"
  shows "header_count name block = 0"
proof -
  from assms have "\<forall>l \<in> set block. l = []" by simp
  then have "filter (header_named name) block = []"
    by (auto simp: filter_empty_conv header_named_def startswith_def lower_def)
  then show ?thesis by (simp add: header_count_def)
qed

text \<open>
  Claim C1, as amended. Whenever a reply has a header block, that is, whenever the
  request did not come as HTTP/0.9, \<open>end_headers\<close> writes what the library had queued
  (the status line and its own headers), followed by
  \<open>Cross-Origin-Opener-Policy: same-origin\<close>,
  \<open>Cross-Origin-Embedder-Policy: require-corp\<close> and the blank line, and leaves the queue
  empty. The library queues neither header itself, so each of the two occurs in the
  block exactly once. This holds for every status code: the library's error replies end
  their headers through the same method.
\<close>

theorem end_headers_isolation:
  assumes "request_version h \<noteq> ''HTTP/0.9''"
    and "header_count ''Cross-Origin-Opener-Policy'' (headers_buffer h) = 0"
    and "header_count ''Cross-Origin-Embedder-Policy'' (headers_buffer h) = 0"
  shows "\<exists>block.
           wfile (end_headers h) = wfile h @ concat block \<and>
           headers_buffer (end_headers h) = [] \<and>
           block = headers_buffer h @
             [header_line ''Cross-Origin-Opener-Policy'' ''same-origin'',
              header_line ''Cross-Origin-Embedder-Policy'' ''require-corp'', CRLF] \<and>
           header_count ''Cross-Origin-Opener-Policy'' block = 1 \<and>
           header_count ''Cross-Origin-Embedder-Policy'' block = 1"
  using assms
  by (simp add: end_headers_flushes header_count_append header_count_tail)

text \<open>The library's 404 reply carries both headers once.\<close>

theorem end_headers_isolation_witness:
  "request_version not_found_reply \<noteq> ''HTTP/0.9'' \<and>
   (\<exists>block.
      wfile (end_headers not_found_reply) = wfile not_found_reply @ concat block \<and>
      header_count ''Cross-Origin-Opener-Policy'' block = 1 \<and>
      header_count ''Cross-Origin-Embedder-Policy'' block = 1)"
proof -
  have v: "request_version not_found_reply \<noteq> ''HTTP/0.9''"
    by (simp add: not_found_reply_def)
  have o: "header_count ''Cross-Origin-Opener-Policy'' (headers_buffer not_found_reply) = 0"
    by code_simp
  have e: "header_count ''Cross-Origin-Embedder-Policy'' (headers_buffer not_found_reply) = 0"
    by code_simp
  from end_headers_isolation [OF v o e] v show ?thesis
    by blast
qed

text \<open>
  The claim as first stated, for every request the server answers, fails for a request
  that came as HTTP/0.9: the library sends such a reply without any header, so
  \<open>end_headers\<close> changes nothing and no header block is written.
\<close>

theorem http09_reply_without_isolation_headers:
  "end_headers http09_reply = http09_reply \<and>
   \<not> (\<exists>block.
        wfile (end_headers http09_reply) = wfile http09_reply @ concat block \<and>
        header_count ''Cross-Origin-Opener-Policy'' block = 1 \<and>
        header_count ''Cross-Origin-Embedder-Policy'' block = 1)"
proof -
  have same: "end_headers http09_reply = http09_reply"
    by (simp add: end_headers_http09 http09_reply_def)
  have "header_count ''Cross-Origin-Opener-Policy'' block \<noteq> 1"
    if "wfile (end_headers http09_reply) = wfile http09_reply @ concat block" for block
  proof -
    from that same have "concat block = []"
      by simp
    then show ?thesis
      by (simp add: header_count_blank)
  qed
  with same show ?thesis
    by blast
qed

section \<open>Command line and start-up\<close>

lemmas py_int_eval =
  py_int_def strip_def is_space_def py_nat_def is_digit_def digit_val_def max_str_digits_def

lemmas main_eval =
  main_def uncaught_def process_ends_def start_def HTTPServer_def serve_forever_def
  shutdown_def Let_def

lemma py_int_3000: "py_int ''3000'' = Some 3000"
  by (simp add: py_int_eval)

lemma parse_port_absent: "length argv \<le> 1 \<Longrightarrow> parse_port argv = Inr 8080"
  by (simp add: parse_port_def)

lemma parse_port_given:
  "1 < length argv \<Longrightarrow> py_int (argv ! 1) = Some n \<Longrightarrow> parse_port argv = Inr n"
  by (simp add: parse_port_def)

lemma parse_port_invalid:
  "1 < length argv \<Longrightarrow> py_int (argv ! 1) = None \<Longrightarrow> parse_port argv = Inl ValueError"
  by (simp add: parse_port_def)

lemma main_constructed_with:
  "parse_port argv = Inr p \<Longrightarrow> constructed_with (main e argv) = Some (parse_bind argv, p)"
  by (simp add: main_eval split: option.splits raised.splits)

lemma main_binds:
  "parse_port argv = Inr p \<Longrightarrow> take 1 (os_calls (main e argv)) = [Bind (parse_bind argv, p)]"
  by (simp add: main_eval split: option.splits raised.splits)

lemma main_listens:
  assumes "parse_port argv = Inr p" and "bind_error e (parse_bind argv) p = None"
  shows "take 2 (os_calls (main e argv)) = [Bind (parse_bind argv, p), Listen]"
    and "map_option server_address (server (main e argv))
           = Some (sockname e (parse_bind argv) p)"
  using assms by (simp_all add: main_eval split: option.splits raised.splits)

text \<open>
  \<open>int\<close> reads back what \<open>str\<close> writes: the decimal text of an integer is made of
  digits after an optional minus sign, and its digits denote the integer.
\<close>

lemma digit_char:
  assumes "d < 10"
  shows "is_digit (''0123456789'' ! d)" and "digit_val (''0123456789'' ! d) = d"
  using assms
  by (auto simp: eval_nat_numeral less_Suc_eq is_digit_def digit_val_def)

lemma str_nat_digits: "\<forall>c \<in> set (str_nat n). is_digit c"
proof (induction n rule: str_nat.induct)
  case (1 n)
  show ?case
  proof (cases "n < 10")
    case True
    then show ?thesis
      by (simp add: str_nat.simps [of n] digit_char)
  next
    case False
    with "1" show ?thesis
      by (simp add: str_nat.simps [of n] digit_char)
  qed
qed

lemma str_nat_not_empty: "str_nat n \<noteq> []"
  by (simp add: str_nat.simps [of n])

lemma more_digits_decimal:
  "\<forall>c \<in> set ds. is_digit c \<Longrightarrow>
   more_digits acc ds = Some (foldl (\<lambda>a c. 10 * a + digit_val c) acc ds)"
  by (induction ds arbitrary: acc) simp_all

lemma decimal_str_nat: "foldl (\<lambda>a c. 10 * a + digit_val c) 0 (str_nat n) = n"
proof (induction n rule: str_nat.induct)
  case (1 n)
  show ?case
  proof (cases "n < 10")
    case True
    then show ?thesis
      by (simp add: str_nat.simps [of n] digit_char)
  next
    case False
    with "1" have "foldl (\<lambda>a c. 10 * a + digit_val c) 0 (str_nat (n div 10)) = n div 10"
      by simp
    with False show ?thesis
      by (simp add: str_nat.simps [of n] digit_char)
  qed
qed

lemma py_nat_str_nat:
  assumes "length (str_nat n) \<le> max_str_digits"
  shows "py_nat (str_nat n) = Some n"
proof -
  obtain c cs where s: "str_nat n = c # cs"
    using str_nat_not_empty [of n] by (cases "str_nat n") auto
  have d: "\<forall>x \<in> set (c # cs). is_digit x"
    using str_nat_digits [of n] s by simp
  then have f: "filter is_digit (c # cs) = c # cs"
    by (simp only: filter_id_conv)
  have "more_digits (digit_val c) cs
      = Some (foldl (\<lambda>a c. 10 * a + digit_val c) (digit_val c) cs)"
    using d by (simp add: more_digits_decimal)
  also have "foldl (\<lambda>a c. 10 * a + digit_val c) (digit_val c) cs
      = foldl (\<lambda>a c. 10 * a + digit_val c) 0 (c # cs)"
    by simp
  also have "\<dots> = n"
    using decimal_str_nat [of n] s by simp
  finally have "more_digits (digit_val c) cs = Some n" .
  moreover have "is_digit c"
    using d by simp
  moreover have "length (filter is_digit (c # cs)) \<le> max_str_digits"
    using assms s f by simp
  ultimately show ?thesis
    unfolding s py_nat_def by simp
qed

lemma digit_not_space: "is_digit c \<Longrightarrow> \<not> is_space c"
  by (auto simp: is_digit_def is_space_def Let_def)

lemma digit_not_sign: "is_digit c \<Longrightarrow> c \<noteq> CHR ''-'' \<and> c \<noteq> CHR ''+''"
  by (auto simp: is_digit_def)

lemma strip_unchanged:
  assumes "s \<noteq> []" and "\<not> is_space (hd s)" and "\<not> is_space (last s)"
  shows "strip s = s"
proof -
  from assms have "dropWhile is_space s = s"
    by (cases s) auto
  moreover from assms have "dropWhile is_space (rev s) = rev s"
    by (cases "rev s") (auto simp: hd_rev)
  ultimately show ?thesis
    by (simp add: strip_def)
qed

lemma py_int_str_int:
  assumes "length (str_nat (nat \<bar>i\<bar>)) \<le> max_str_digits"
  shows "py_int (str_int i) = Some i"
proof (cases "i < 0")
  case False
  let ?s = "str_nat (nat i)"
  from False have n: "nat \<bar>i\<bar> = nat i" by simp
  obtain c cs where s: "?s = c # cs"
    using str_nat_not_empty [of "nat i"] by (cases ?s) auto
  have d: "\<forall>x \<in> set ?s. is_digit x"
    by (rule str_nat_digits)
  have "is_digit (hd ?s)" "is_digit (last ?s)"
    using d str_nat_not_empty [of "nat i"] by simp_all
  then have "strip ?s = ?s"
    using str_nat_not_empty [of "nat i"] by (intro strip_unchanged) (simp_all add: digit_not_space)
  moreover have "c \<noteq> CHR ''-''" "c \<noteq> CHR ''+''"
    using d s digit_not_sign [of c] by simp_all
  moreover have "py_nat (c # cs) = Some (nat i)"
    using py_nat_str_nat [of "nat i"] assms n s by simp
  ultimately show ?thesis
    using False s by (simp add: py_int_def str_int_def)
next
  case True
  let ?s = "str_nat (nat (- i))"
  from True have n: "nat \<bar>i\<bar> = nat (- i)" by simp
  have d: "\<forall>x \<in> set ?s. is_digit x"
    by (rule str_nat_digits)
  have ne: "?s \<noteq> []"
    by (rule str_nat_not_empty)
  have "is_digit (last ?s)"
    using d ne by simp
  then have "\<not> is_space (last (CHR ''-'' # ?s))"
    using ne by (simp add: digit_not_space)
  moreover have "\<not> is_space (hd (CHR ''-'' # ?s))"
    by (simp add: is_space_def)
  ultimately have "strip (CHR ''-'' # ?s) = CHR ''-'' # ?s"
    by (intro strip_unchanged) simp_all
  moreover have "py_nat ?s = Some (nat (- i))"
    using py_nat_str_nat [of "nat (- i)"] assms n by simp
  ultimately show ?thesis
    using True by (simp add: py_int_def str_int_def)
qed


text \<open>
  Claim C5. Without a first argument the port is 8080 and without a second the bind
  address is \<open>127.0.0.1\<close>; a first argument is converted by \<open>int\<close> and used as the
  port (the decimal text of an integer gives that integer), a second is used as the
  bind address as it stands. The pair is what the server constructor receives and what
  the socket is bound with; when binding succeeds the socket listens and the server's
  address is the one the bound socket reports. The arguments \<open>3000 0.0.0.0\<close> bind
  \<open>0.0.0.0:3000\<close>.
\<close>

theorem cli_parsing:
  "(length argv \<le> 1 \<longrightarrow> parse_port argv = Inr 8080) \<and>
   (length argv \<le> 2 \<longrightarrow> parse_bind argv = ''127.0.0.1'') \<and>
   (1 < length argv \<and> py_int (argv ! 1) = Some n \<longrightarrow> parse_port argv = Inr n) \<and>
   (length (str_nat (nat \<bar>i\<bar>)) \<le> max_str_digits \<longrightarrow> py_int (str_int i) = Some i) \<and>
   (2 < length argv \<longrightarrow> parse_bind argv = argv ! 2) \<and>
   (parse_port argv = Inr p \<longrightarrow>
      constructed_with (main e argv) = Some (parse_bind argv, p) \<and>
      take 1 (os_calls (main e argv)) = [Bind (parse_bind argv, p)]) \<and>
   (parse_port argv = Inr p \<and> bind_error e (parse_bind argv) p = None \<longrightarrow>
      take 2 (os_calls (main e argv)) = [Bind (parse_bind argv, p), Listen] \<and>
      map_option server_address (server (main e argv))
        = Some (sockname e (parse_bind argv) p)) \<and>
   constructed_with (main e [prog, ''3000'', ''0.0.0.0'']) = Some (''0.0.0.0'', 3000) \<and>
   take 1 (os_calls (main e [prog, ''3000'', ''0.0.0.0''])) = [Bind (''0.0.0.0'', 3000)]"
proof -
  have port: "parse_port [prog, ''3000'', ''0.0.0.0''] = Inr 3000"
    by (simp add: parse_port_def py_int_3000)
  have bind: "parse_bind [prog, ''3000'', ''0.0.0.0''] = ''0.0.0.0''"
    by (simp add: parse_bind_def)
  have "constructed_with (main e [prog, ''3000'', ''0.0.0.0'']) = Some (''0.0.0.0'', 3000)"
    using main_constructed_with [OF port] bind by simp
  moreover have "take 1 (os_calls (main e [prog, ''3000'', ''0.0.0.0'']))
      = [Bind (''0.0.0.0'', 3000)]"
    using main_binds [OF port] bind by simp
  moreover have "length argv \<le> 2 \<longrightarrow> parse_bind argv = ''127.0.0.1''"
    by (simp add: parse_bind_def)
  moreover have "2 < length argv \<longrightarrow> parse_bind argv = argv ! 2"
    by (simp add: parse_bind_def)
  moreover have "length argv \<le> 1 \<longrightarrow> parse_port argv = Inr 8080"
    by (simp add: parse_port_absent)
  moreover have "1 < length argv \<and> py_int (argv ! 1) = Some n \<longrightarrow> parse_port argv = Inr n"
    by (simp add: parse_port_given)
  moreover have "length (str_nat (nat \<bar>i\<bar>)) \<le> max_str_digits \<longrightarrow> py_int (str_int i) = Some i"
    by (simp add: py_int_str_int)
  moreover have "parse_port argv = Inr p \<longrightarrow>
      constructed_with (main e argv) = Some (parse_bind argv, p) \<and>
      take 1 (os_calls (main e argv)) = [Bind (parse_bind argv, p)]"
    using main_constructed_with [of argv p e] main_binds [of argv p e] by blast
  moreover have "parse_port argv = Inr p \<and> bind_error e (parse_bind argv) p = None \<longrightarrow>
      take 2 (os_calls (main e argv)) = [Bind (parse_bind argv, p), Listen] \<and>
      map_option server_address (server (main e argv))
        = Some (sockname e (parse_bind argv) p)"
    using main_listens [of argv p e] by blast
  ultimately show ?thesis
    by blast
qed

text \<open>
  The defaults; the run with \<open>3000 0.0.0.0\<close> on a free port; and the run with port
  0, where the server's address carries the port the kernel chose.
\<close>

theorem cli_parsing_witness:
  "parse_port [''serve.py''] = Inr 8080 \<and>
   parse_bind [''serve.py'', ''3000''] = ''127.0.0.1'' \<and>
   parse_port [''serve.py'', ''3000'', ''0.0.0.0''] = Inr 3000 \<and>
   py_int (str_int 3000) = Some 3000 \<and>
   parse_bind [''serve.py'', ''3000'', ''0.0.0.0''] = ''0.0.0.0'' \<and>
   take 2 (os_calls (main undisturbed [''serve.py'', ''3000'', ''0.0.0.0'']))
     = [Bind (''0.0.0.0'', 3000), Listen] \<and>
   map_option server_address (server (main undisturbed [''serve.py'', ''3000'', ''0.0.0.0'']))
     = Some (''0.0.0.0'', 3000) \<and>
   take 2 (os_calls (main undisturbed [''serve.py'', ''0'']))
     = [Bind (''127.0.0.1'', 0), Listen] \<and>
   map_option server_address (server (main undisturbed [''serve.py'', ''0'']))
     = Some (''127.0.0.1'', 49152)"
proof -
  let ?argv = "[''serve.py'', ''3000'', ''0.0.0.0'']"
  let ?zero = "[''serve.py'', ''0'']"
  have a: "parse_port [''serve.py''] = Inr 8080"
    using cli_parsing [of "[''serve.py'']"] by simp
  have b: "parse_bind [''serve.py'', ''3000''] = ''127.0.0.1''"
    using cli_parsing [of "[''serve.py'', ''3000'']"] by simp
  have c: "parse_port ?argv = Inr 3000"
    using cli_parsing [of ?argv 3000] by (simp add: py_int_3000)
  have d: "parse_bind ?argv = ''0.0.0.0''"
    using cli_parsing [of ?argv] by simp
  have len: "length (str_nat (nat \<bar>3000\<bar>)) \<le> max_str_digits"
    by (simp add: str_nat.simps max_str_digits_def)
  have r: "py_int (str_int 3000) = Some 3000"
    using cli_parsing [of "[]" 0 3000] len by blast
  have free: "bind_error undisturbed (parse_bind ?argv) 3000 = None"
    by (simp add: undisturbed_def)
  have "take 2 (os_calls (main undisturbed ?argv)) = [Bind (parse_bind ?argv, 3000), Listen] \<and>
      map_option server_address (server (main undisturbed ?argv))
        = Some (sockname undisturbed (parse_bind ?argv) 3000)"
    using cli_parsing [of ?argv 3000 0 3000 undisturbed] c free by blast
  then have e: "take 2 (os_calls (main undisturbed ?argv)) = [Bind (''0.0.0.0'', 3000), Listen] \<and>
      map_option server_address (server (main undisturbed ?argv)) = Some (''0.0.0.0'', 3000)"
    using d by (simp add: undisturbed_def kernel_name_def)
  have z: "parse_port ?zero = Inr 0"
    using cli_parsing [of ?zero 0] by (simp add: py_int_eval)
  have zb: "parse_bind ?zero = ''127.0.0.1''"
    using cli_parsing [of ?zero] by simp
  have zfree: "bind_error undisturbed (parse_bind ?zero) 0 = None"
    by (simp add: undisturbed_def)
  have "take 2 (os_calls (main undisturbed ?zero)) = [Bind (parse_bind ?zero, 0), Listen] \<and>
      map_option server_address (server (main undisturbed ?zero))
        = Some (sockname undisturbed (parse_bind ?zero) 0)"
    using cli_parsing [of ?zero 0 0 0 undisturbed] z zfree by blast
  then have f: "take 2 (os_calls (main undisturbed ?zero)) = [Bind (''127.0.0.1'', 0), Listen] \<and>
      map_option server_address (server (main undisturbed ?zero)) = Some (''127.0.0.1'', 49152)"
    using zb by (simp add: undisturbed_def kernel_name_def)
  from a b c r d e f show ?thesis
    by simp
qed

text \<open>
  Claim C10. Any first argument that \<open>int\<close> accepts, whatever its value, gives that
  integer as the port, and the constructor receives it unchanged: parsing applies no
  range check. An exception that ends such a run therefore comes from binding or from
  the serving loop, never from argument parsing.
\<close>

theorem port_not_range_checked:
  assumes "1 < length argv" and "py_int (argv ! 1) = Some n"
  shows "parse_port argv = Inr n \<and>
         constructed_with (main e argv) = Some (parse_bind argv, n) \<and>
         (\<forall>x. traceback (main e argv) = Some x \<longrightarrow>
            bind_error e (parse_bind argv) n = Some x \<or> serving_ends e = Some (Error x))"
proof -
  from assms have p: "parse_port argv = Inr n"
    by (rule parse_port_given)
  then have c: "constructed_with (main e argv) = Some (parse_bind argv, n)"
    by (rule main_constructed_with)
  have "\<forall>x. traceback (main e argv) = Some x \<longrightarrow>
            bind_error e (parse_bind argv) n = Some x \<or> serving_ends e = Some (Error x)"
    using p
    by (auto simp: main_eval split: option.splits raised.splits)
  with p c show ?thesis by simp
qed

text \<open>A negative port and a port above 65535 both reach the constructor.\<close>

theorem port_not_range_checked_witness:
  "py_int ''-1'' = Some (- 1) \<and> py_int ''70000'' = Some 70000 \<and>
   constructed_with (main undisturbed [''serve.py'', ''-1'']) = Some (''127.0.0.1'', - 1) \<and>
   constructed_with (main undisturbed [''serve.py'', ''70000'']) = Some (''127.0.0.1'', 70000)"
proof -
  have m: "py_int ''-1'' = Some (- 1)"
    by (simp add: py_int_eval)
  have b: "py_int ''70000'' = Some 70000"
    by (simp add: py_int_eval)
  have "constructed_with (main undisturbed [''serve.py'', ''-1''])
      = Some (parse_bind [''serve.py'', ''-1''], - 1)"
    using port_not_range_checked [of "[''serve.py'', ''-1'']" "- 1" undisturbed] m by simp
  moreover have "constructed_with (main undisturbed [''serve.py'', ''70000''])
      = Some (parse_bind [''serve.py'', ''70000''], 70000)"
    using port_not_range_checked [of "[''serve.py'', ''70000'']" 70000 undisturbed] b by simp
  ultimately show ?thesis
    using m b by (simp add: parse_bind_def)
qed

text \<open>
  Claim C6. When the first argument is not a valid integer, or when binding the
  address fails, the exception is not caught: the interpreter reports it, the process
  ends with a non-zero exit status, nothing has been printed and the serving loop has
  not been entered.
\<close>

theorem startup_failure:
  assumes "(1 < length argv \<and> py_int (argv ! 1) = None) \<or>
           (\<exists>port x. parse_port argv = Inr port \<and>
              bind_error e (parse_bind argv) port = Some x)"
  shows "(\<exists>x. traceback (main e argv) = Some x) \<and>
         (\<exists>c. exit_code (main e argv) = Some c \<and> c \<noteq> 0) \<and>
         \<not> served (main e argv) \<and> stdout (main e argv) = []"
  using assms
proof
  assume "1 < length argv \<and> py_int (argv ! 1) = None"
  then have "parse_port argv = Inl ValueError"
    by (simp add: parse_port_invalid)
  then show ?thesis
    by (simp add: main_eval)
next
  assume "\<exists>port x. parse_port argv = Inr port \<and>
              bind_error e (parse_bind argv) port = Some x"
  then obtain port x where "parse_port argv = Inr port"
    and "bind_error e (parse_bind argv) port = Some x"
    by blast
  then show ?thesis
    by (simp add: main_eval)
qed

text \<open>A port that is not a number, and an address that is already in use.\<close>

theorem startup_failure_witness:
  "py_int ''http'' = None \<and>
   exit_code (main undisturbed [''serve.py'', ''http'']) \<noteq> Some 0 \<and>
   \<not> served (main undisturbed [''serve.py'', ''http'']) \<and>
   exit_code (main address_in_use [''serve.py'']) \<noteq> Some 0 \<and>
   \<not> served (main address_in_use [''serve.py''])"
proof -
  have bad: "py_int ''http'' = None"
    by (simp add: py_int_eval)
  have one: "(1 < length [''serve.py'', ''http''] \<and> py_int ([''serve.py'', ''http''] ! 1) = None)
      \<or> (\<exists>port x. parse_port [''serve.py'', ''http''] = Inr port \<and>
            bind_error undisturbed (parse_bind [''serve.py'', ''http'']) port = Some x)"
    using bad by simp
  have "parse_port [''serve.py''] = Inr 8080 \<and>
      bind_error address_in_use (parse_bind [''serve.py'']) 8080 = Some OSError"
    by (simp add: parse_port_def address_in_use_def)
  then have two: "(1 < length [''serve.py''] \<and> py_int ([''serve.py''] ! 1) = None)
      \<or> (\<exists>port x. parse_port [''serve.py''] = Inr port \<and>
            bind_error address_in_use (parse_bind [''serve.py'']) port = Some x)"
    by blast
  from startup_failure [OF one] startup_failure [OF two] bad show ?thesis
    by auto
qed

section \<open>Interrupt\<close>

text \<open>
  Claim C7. When the server has been started and the serving loop is left by
  \<^verbatim>\<open>KeyboardInterrupt\<close>, the interrupt is caught: the script prints the shutdown
  message after the banner and calls \<^verbatim>\<open>shutdown\<close>, which finds the loop finished and
  returns; the script has then run to its end, so no exception is reported, the process
  ends with exit status 0, and with it the listening socket is closed. The calls on the
  socket are exactly: bind, listen, close.
\<close>

theorem interrupt_shutdown:
  assumes "parse_port argv = Inr port"
    and "bind_error e (parse_bind argv) port = None"
    and "serving_ends e = Some KeyboardInterrupt"
  shows "stdout (main e argv) =
           print (CHR 0x0A # ''Shutting down.'') (print (banner (parse_bind argv) port) []) \<and>
         traceback (main e argv) = None \<and>
         served (main e argv) \<and>
         exit_code (main e argv) = Some 0 \<and>
         os_calls (main e argv) = [Bind (parse_bind argv, port), Listen, Close] \<and>
         server (main e argv) =
           Some \<lparr>server_address = sockname e (parse_bind argv) port, socket_open = False,
                 shutdown_request = True, is_shut_down = True\<rparr>"
  using assms
  by (simp add: main_eval)

text \<open>The run without arguments, interrupted while serving.\<close>

theorem interrupt_shutdown_witness:
  "parse_port [''serve.py''] = Inr 8080 \<and>
   stdout (main interrupted [''serve.py'']) =
     print (CHR 0x0A # ''Shutting down.'')
       (print ''Serving on http://127.0.0.1:8080 with COOP/COEP headers'' []) \<and>
   exit_code (main interrupted [''serve.py'']) = Some 0 \<and>
   os_calls (main interrupted [''serve.py'']) = [Bind (''127.0.0.1'', 8080), Listen, Close] \<and>
   server (main interrupted [''serve.py'']) =
     Some \<lparr>server_address = (''127.0.0.1'', 8080), socket_open = False,
           shutdown_request = True, is_shut_down = True\<rparr>"
proof -
  have p: "parse_port [''serve.py''] = Inr 8080"
    by (simp add: parse_port_def)
  have b: "bind_error interrupted (parse_bind [''serve.py'']) 8080 = None"
    by (simp add: interrupted_def)
  have s: "serving_ends interrupted = Some KeyboardInterrupt"
    by (simp add: interrupted_def)
  have h: "parse_bind [''serve.py''] = ''127.0.0.1''"
    by (simp add: parse_bind_def)
  have "banner ''127.0.0.1'' 8080
      = ''Serving on http://127.0.0.1:8080 with COOP/COEP headers''"
    by (simp add: banner_def str_int_def str_nat.simps)
  moreover have "sockname interrupted ''127.0.0.1'' 8080 = (''127.0.0.1'', 8080)"
    by (simp add: interrupted_def kernel_name_def)
  ultimately show ?thesis
    using interrupt_shutdown [OF p b s] p h by simp
qed

end
